theory Spec2Isabelle
  imports Main
begin

section \<open>JavaScript values\<close>

text \<open>
  The component stores and tests values that come out of a parsed JSON response, so the
  model keeps JavaScript's dynamic values: \<open>undefined\<close>, \<open>null\<close>, booleans, (integer)
  numbers, strings and objects. An object is the list of its own properties, each key once.
\<close>

datatype jsval =
    JUndefined
  | JNull
  | JBool bool
  | JNum int
  | JStr string
  | JObj "(string \<times> jsval) list"

text \<open>What \<open>if (v)\<close>, \<open>v && e\<close>, \<open>v || e\<close> and \<open>v ? a : b\<close> test.\<close>

fun truthy :: "jsval \<Rightarrow> bool" where
  "truthy JUndefined = False"
| "truthy JNull = False"
| "truthy (JBool b) = b"
| "truthy (JNum n) = (n \<noteq> 0)"
| "truthy (JStr s) = (s \<noteq> [])"
| "truthy (JObj fs) = True"

text \<open>\<open>a || b\<close>: the left operand when it is truthy, the right one otherwise.\<close>

definition js_or :: "jsval \<Rightarrow> jsval \<Rightarrow> jsval" where
  "js_or a b = (if truthy a then a else b)"

text \<open>
  What a \<open>try\<close> block can throw into the \<open>catch\<close> of \<open>generateWallpaper\<close>: the rejection
  of the awaited \<open>axios.post\<close> (network error, timeout, status outside 2xx), with its
  message, or the TypeError of reading a property of \<open>null\<close> or \<open>undefined\<close>.
\<close>

datatype thrown = AxiosError string | TypeError

text \<open>
  \<open>v.k\<close>: reading a property of \<open>undefined\<close> or \<open>null\<close> throws; an object gives the
  property or \<open>undefined\<close>; the other primitives have none of the properties read here.
\<close>

fun get_prop :: "jsval \<Rightarrow> string \<Rightarrow> thrown + jsval" where
  "get_prop JUndefined k = Inl TypeError"
| "get_prop JNull k = Inl TypeError"
| "get_prop (JObj fs) k = Inr (case map_of fs k of None \<Rightarrow> JUndefined | Some v \<Rightarrow> v)"
| "get_prop (JBool b) k = Inr JUndefined"
| "get_prop (JNum n) k = Inr JUndefined"
| "get_prop (JStr s) k = Inr JUndefined"

subsection \<open>Strings\<close>

text \<open>
  The prompt is the one text that the component looks into (\<open>prompt.trim()\<close>, lines 38
  and 48), so it is kept as JavaScript has it: a sequence of UTF-16 code units, each a
  number below 65536. Every other text is only stored, tested for being empty and
  concatenated, and is a \<open>string\<close>.

  \<open>String.prototype.trim\<close> removes white space and line terminators at both ends.
  These are, by the language definition: tab U+0009, line feed U+000A, vertical tab
  U+000B, form feed U+000C, carriage return U+000D, space U+0020, no-break space U+00A0,
  the other space separators U+1680, U+2000 to U+200A, U+202F, U+205F and U+3000, the
  line and paragraph separators U+2028 and U+2029, and the byte order mark U+FEFF. All
  of them are single code units.
\<close>

definition is_ws :: "nat \<Rightarrow> bool" where
  "is_ws c =
     (c = 0x09 \<or> c = 0x0A \<or> c = 0x0B \<or> c = 0x0C \<or> c = 0x0D \<or> c = 0x20 \<or> c = 0xA0 \<or>
      c = 0x1680 \<or> (0x2000 \<le> c \<and> c \<le> 0x200A) \<or> c = 0x2028 \<or> c = 0x2029 \<or>
      c = 0x202F \<or> c = 0x205F \<or> c = 0x3000 \<or> c = 0xFEFF)"

definition trim :: "nat list \<Rightarrow> nat list" where
  "trim s = rev (dropWhile is_ws (rev (dropWhile is_ws s)))"

text \<open>The code units of a text written in ASCII: one for each character.\<close>

definition code_units :: "string \<Rightarrow> nat list" where
  "code_units s = map of_char s"

text \<open>
  A number inside a template literal: an integer is printed in decimal, with a minus sign
  when negative (the values of \<open>Date.now()\<close> are far below the 1e21 where JavaScript
  changes to exponent notation).
\<close>

fun nat_to_string :: "nat \<Rightarrow> string" where
  "nat_to_string n =
     (if n < 10 then [''0123456789'' ! n]
      else nat_to_string (n div 10) @ [''0123456789'' ! (n mod 10)])"

declare nat_to_string.simps [simp del]

definition int_to_string :: "int \<Rightarrow> string" where
  "int_to_string i = (if i < 0 then ''-'' @ nat_to_string (nat (- i)) else nat_to_string (nat i))"

section \<open>WallpaperGenerator\<close>

subsection \<open>Configuration\<close>

text \<open>
  Lines 12 and 13: \<open>process.env.REACT_APP_API_URL || 'http://localhost:8000'\<close>. The
  environment value is a string or is not there (\<open>None\<close>); an empty string is falsy.
\<close>

definition API_BASE :: "string option \<Rightarrow> string" where
  "API_BASE env = (case env of None \<Rightarrow> ''http://localhost:8000''
     | Some v \<Rightarrow> if v = [] then ''http://localhost:8000'' else v)"

definition API :: "string option \<Rightarrow> string" where
  "API env = API_BASE env @ ''/api''"

subsection \<open>State and effects\<close>

text \<open>
  The object literal of lines 47 to 51, whose keys are \<open>prompt\<close>, \<open>style\<close> and
  \<open>aspect_ratio\<close> and no other.
\<close>

record payload =
  body_prompt :: "nat list"
  body_style :: string
  body_aspect_ratio :: string

text \<open>An \<open>axios.post(url, data)\<close> call.\<close>

record request =
  http_method :: string
  url :: string
  body :: payload

text \<open>The anchor element that \<open>downloadWallpaper\<close> builds and clicks.\<close>

record link =
  href :: jsval
  download :: string
  target :: string

text \<open>
  The five \<open>useState\<close> cells of the component (lines 16 to 20), and what the component
  has done to the world: the posts it issued (\<open>posts\<close>), those of them whose promise has
  not settled yet (\<open>pending\<close>), the lines written with \<open>console.error\<close> and the links it
  clicked (\<open>saves\<close>).
\<close>

record state =
  prompt :: "nat list"
  style :: string
  isGenerating :: bool
  generatedImage :: jsval
  error :: jsval
  posts :: "request list"
  pending :: "request list"
  console :: "(string \<times> thrown) list"
  saves :: "link list"

definition init :: state where
  "init = \<lparr>prompt = [], style = [], isGenerating = False, generatedImage = JNull,
     error = JNull, posts = [], pending = [], console = [], saves = []\<rparr>"

text \<open>How the awaited post settles: with the response's \<open>data\<close>, or rejected.\<close>

datatype outcome = Fulfilled jsval | Rejected string

subsection \<open>generateWallpaper\<close>

text \<open>The call of lines 47 to 51.\<close>

definition request_of :: "string option \<Rightarrow> state \<Rightarrow> request" where
  "request_of env s =
     \<lparr>http_method = ''POST'', url = API env @ ''/generate-wallpaper'',
      body = \<lparr>body_prompt = trim (prompt s), body_style = style s,
               body_aspect_ratio = ''9:16''\<rparr>\<rparr>"

text \<open>Lines 38 to 51: the handler up to the \<open>await\<close>.\<close>

definition gw_start :: "string option \<Rightarrow> state \<Rightarrow> state" where
  "gw_start env s =
     (if trim (prompt s) = [] then s\<lparr>error := JStr ''Please enter a prompt''\<rparr>
      else s\<lparr>isGenerating := True, error := JNull,
             posts := posts s @ [request_of env s],
             pending := pending s @ [request_of env s]\<rparr>)"

text \<open>Lines 53 to 57: the rest of the \<open>try\<close> block, on the response's \<open>data\<close>.\<close>

definition try_block :: "jsval \<Rightarrow> state \<Rightarrow> thrown + state" where
  "try_block d s =
     (case get_prop d ''success'' of
        Inl t \<Rightarrow> Inl t
      | Inr ok \<Rightarrow>
          if truthy ok then
            (case get_prop d ''image_url'' of
               Inl t \<Rightarrow> Inl t
             | Inr u \<Rightarrow> Inr (s\<lparr>generatedImage := u\<rparr>))
          else
            (case get_prop d ''error'' of
               Inl t \<Rightarrow> Inl t
             | Inr m \<Rightarrow> Inr (s\<lparr>error := js_or m (JStr ''Failed to generate wallpaper'')\<rparr>)))"

text \<open>Lines 58 to 60.\<close>

definition catch_block :: "thrown \<Rightarrow> state \<Rightarrow> state" where
  "catch_block err s =
     s\<lparr>console := console s @ [(''Error generating wallpaper:'', err)],
       error := JStr ''Failed to generate wallpaper. Please try again.''\<rparr>"

text \<open>Lines 61 to 63.\<close>

definition finally_block :: "state \<Rightarrow> state" where
  "finally_block s = s\<lparr>isGenerating := False\<rparr>"

text \<open>
  Lines 53 to 63: the handler from the \<open>await\<close> on, when the oldest pending post settles.
\<close>

definition gw_resume :: "outcome \<Rightarrow> state \<Rightarrow> state" where
  "gw_resume out s =
     (let s0 = s\<lparr>pending := tl (pending s)\<rparr> in
      finally_block
        (case out of
           Rejected e \<Rightarrow> catch_block (AxiosError e) s0
         | Fulfilled d \<Rightarrow>
             (case try_block d s0 of
                Inl t \<Rightarrow> catch_block t s0
              | Inr s1 \<Rightarrow> s1)))"

text \<open>
  One whole run of \<open>generateWallpaper\<close> (lines 37 to 64), given how its post settles:
  the early return of line 40 awaits nothing.
\<close>

definition generateWallpaper :: "string option \<Rightarrow> outcome \<Rightarrow> state \<Rightarrow> state" where
  "generateWallpaper env out s =
     (if trim (prompt s) = [] then gw_start env s else gw_resume out (gw_start env s))"

subsection \<open>downloadWallpaper\<close>

text \<open>Lines 66 to 74; \<open>now\<close> is the value of \<open>Date.now()\<close>. \<open>None\<close>: nothing is built.\<close>

definition downloadWallpaper :: "int \<Rightarrow> state \<Rightarrow> link option" where
  "downloadWallpaper now s =
     (if truthy (generatedImage s) then
        Some \<lparr>href = generatedImage s,
              download = ''wallpaper-'' @ int_to_string now @ ''.jpg'',
              target = ''_blank''\<rparr>
      else None)"

definition click_download :: "int \<Rightarrow> state \<Rightarrow> state" where
  "click_download now s =
     (case downloadWallpaper now s of None \<Rightarrow> s | Some l \<Rightarrow> s\<lparr>saves := saves s @ [l]\<rparr>)"

subsection \<open>The rendered controls\<close>

text \<open>Lines 137 and 210: \<open>disabled={isGenerating}\<close> on both buttons that submit.\<close>

definition submit_disabled :: "state \<Rightarrow> bool" where
  "submit_disabled s = isGenerating s"

text \<open>
  What the user and the network can do to the component: type or pick a prompt (lines 104
  and 172), choose a style (line 115), click Generate (line 136), click Regenerate or
  Download (lines 196 to 215, rendered only with an image), and the pending post settling.
  A disabled button fires no handler; nothing settles when nothing is pending.
\<close>

datatype event =
    SetPrompt "nat list"
  | SetStyle string
  | ClickGenerate
  | ClickRegenerate
  | ClickDownload int
  | Settle outcome

fun step :: "string option \<Rightarrow> event \<Rightarrow> state \<Rightarrow> state" where
  "step env (SetPrompt t) s = s\<lparr>prompt := t\<rparr>"
| "step env (SetStyle l) s = s\<lparr>style := l\<rparr>"
| "step env ClickGenerate s = (if submit_disabled s then s else gw_start env s)"
| "step env ClickRegenerate s =
     (if truthy (generatedImage s) then (if submit_disabled s then s else gw_start env s) else s)"
| "step env (ClickDownload now) s =
     (if truthy (generatedImage s) then click_download now s else s)"
| "step env (Settle out) s = (if pending s = [] then s else gw_resume out s)"

fun run :: "string option \<Rightarrow> event list \<Rightarrow> state \<Rightarrow> state" where
  "run env [] s = s"
| "run env (e # es) s = run env es (step env e s)"

subsection \<open>Status\<close>

text \<open>
  The component stores no status. The four statuses are read off its cells: a submission
  is in flight while \<open>isGenerating\<close>; a cell is set when it holds a value, that is neither
  the \<open>null\<close> it starts with and is cleared to (lines 19, 20 and 44) nor \<open>undefined\<close>.
  An error message counts before an image reference, as the form shows it in both cases.
\<close>

datatype UIStatus = Idle | Generating | Succeeded | Failed

definition is_set :: "jsval \<Rightarrow> bool" where
  "is_set v = (v \<noteq> JNull \<and> v \<noteq> JUndefined)"

definition status :: "state \<Rightarrow> UIStatus" where
  "status s =
     (if isGenerating s then Generating
      else if is_set (error s) then Failed
      else if is_set (generatedImage s) then Succeeded
      else Idle)"

text \<open>
  How a submission ends is decided by how its post settles: line 54 is reached when the
  post is fulfilled and the test of line 53 passes, and in no other case.
\<close>

definition signals_success :: "outcome \<Rightarrow> bool" where
  "signals_success out =
     (case out of
        Rejected e \<Rightarrow> False
      | Fulfilled d \<Rightarrow> (case get_prop d ''success'' of Inl t \<Rightarrow> False | Inr ok \<Rightarrow> truthy ok))"

section \<open>PhonePreview\<close>

text \<open>
  Lines 268 to 291 of the listing: what the component puts in the screen of the frame.
  The frame around it is the same in all three cases.
\<close>

datatype display =
    is_Spinner: Spinner string
  | is_Img: Img jsval string string
  | is_Placeholder: PlaceholderGlyph string

definition PhonePreview :: "jsval \<Rightarrow> bool \<Rightarrow> display" where
  "PhonePreview imageUrl isLoading =
     (if isLoading then Spinner ''Generating...''
      else if truthy imageUrl then Img imageUrl ''Generated wallpaper'' ''w-full h-full object-cover''
      else PlaceholderGlyph ''Your wallpaper will appear here'')"

section \<open>Sample inputs\<close>

text \<open>The two responses of the specification's examples, and states and event sequences
  on which the theorems below are instantiated.\<close>

definition ok_body :: jsval where
  "ok_body = JObj [(''success'', JBool True), (''image_url'', JStr ''https://x/y.jpg'')]"

definition bad_body :: jsval where
  "bad_body = JObj [(''success'', JBool False), (''error'', JStr ''bad prompt'')]"

text \<open>A response that signals success and carries no \<open>image_url\<close>.\<close>

definition bare_body :: jsval where
  "bare_body = JObj [(''success'', JBool True)]"

text \<open>A prompt of white space only: space, no-break space, paragraph separator, tab.\<close>

definition blank :: state where
  "blank = init\<lparr>prompt := [0x20, 0xA0, 0x2029, 0x09]\<rparr>"

text \<open>
  \<open>neon city\<close> typed between a no-break space and a space before it and a space and an
  ideographic space after it.
\<close>

definition typed :: state where
  "typed = init\<lparr>prompt := [0xA0, 0x20] @ code_units ''neon city'' @ [0x20, 0x3000],
     style := ''neon''\<rparr>"

definition shown :: state where
  "shown = init\<lparr>prompt := code_units ''neon city'',
     generatedImage := JStr ''https://x/y.jpg''\<rparr>"

definition failure_after_success :: "event list" where
  "failure_after_success =
     [SetPrompt (code_units ''neon city''), ClickGenerate, Settle (Fulfilled ok_body),
      ClickRegenerate, Settle (Rejected ''Network Error'')]"

definition success_without_image :: "event list" where
  "success_without_image =
     [SetPrompt (code_units ''neon city''), ClickGenerate, Settle (Fulfilled bare_body)]"

section \<open>An invariant of the reachable states\<close>

text \<open>
  While a submission is in flight exactly one post is pending and no error is stored;
  otherwise nothing is pending. A stored error is never a falsy value other than \<open>null\<close>.
\<close>

definition inv :: "state \<Rightarrow> bool" where
  "inv s =
     ((if isGenerating s then length (pending s) = 1 \<and> error s = JNull else pending s = [])
      \<and> (error s = JNull \<or> truthy (error s)))"

lemmas gw_defs = gw_start_def gw_resume_def try_block_def catch_block_def finally_block_def
  generateWallpaper_def js_or_def request_of_def API_def API_BASE_def

lemma trim_Nil_iff: "trim p = [] \<longleftrightarrow> (\<forall>c \<in> set p. is_ws c)"
proof
  assume "trim p = []"
  then have all: "\<forall>c \<in> set (dropWhile is_ws p). is_ws c"
    by (simp add: trim_def)
  have "dropWhile is_ws p = []"
  proof (rule ccontr)
    assume ne: "dropWhile is_ws p \<noteq> []"
    then have "\<not> is_ws (hd (dropWhile is_ws p))" by (rule hd_dropWhile)
    moreover from ne have "hd (dropWhile is_ws p) \<in> set (dropWhile is_ws p)" by simp
    ultimately show False using all by blast
  qed
  then show "\<forall>c \<in> set p. is_ws c" by simp
next
  assume "\<forall>c \<in> set p. is_ws c"
  then have d: "dropWhile is_ws p = []" by simp
  show "trim p = []" unfolding trim_def d by simp
qed

lemma inv_init: "inv init"
  by (simp add: inv_def init_def)

lemma inv_gw_start: "inv s \<Longrightarrow> \<not> isGenerating s \<Longrightarrow> inv (gw_start env s)"
  by (simp add: inv_def gw_start_def)

lemma inv_gw_resume: "inv s \<Longrightarrow> pending s \<noteq> [] \<Longrightarrow> inv (gw_resume out s)"
  by (cases out)
     (auto simp: inv_def gw_resume_def try_block_def catch_block_def finally_block_def js_or_def
        Let_def length_Suc_conv split: sum.splits if_splits)

lemma inv_click_download: "inv s \<Longrightarrow> inv (click_download now s)"
  by (simp add: inv_def click_download_def split: option.splits)

lemma inv_step: "inv s \<Longrightarrow> inv (step env e s)"
proof (cases e)
  case (SetPrompt t)
  then show "inv s \<Longrightarrow> ?thesis" by (simp add: inv_def)
next
  case (SetStyle l)
  then show "inv s \<Longrightarrow> ?thesis" by (simp add: inv_def)
next
  case ClickGenerate
  then show "inv s \<Longrightarrow> ?thesis" by (simp add: submit_disabled_def inv_gw_start)
next
  case ClickRegenerate
  then show "inv s \<Longrightarrow> ?thesis" by (simp add: submit_disabled_def inv_gw_start)
next
  case (ClickDownload now)
  then show "inv s \<Longrightarrow> ?thesis" by (simp add: inv_click_download)
next
  case (Settle out)
  then show "inv s \<Longrightarrow> ?thesis" by (simp add: inv_gw_resume)
qed

lemma inv_run: "inv s \<Longrightarrow> inv (run env es s)"
  by (induction es arbitrary: s) (simp_all add: inv_step)

lemma inv_reachable: "inv (run env es init)"
  by (rule inv_run [OF inv_init])

section \<open>The submission's result cells\<close>

text \<open>
  Claim C1 says that in every state reached after a submission has ended in Succeeded
  or Failed exactly one of the image reference and the error message is set. The
  component never clears \<open>generatedImage\<close>: a failure after a success ends in Failed
  with both cells set.
\<close>

theorem both_cells_set_after_failure:
  "status (run None failure_after_success init) = Failed \<and>
   generatedImage (run None failure_after_success init) = JStr ''https://x/y.jpg'' \<and>
   error (run None failure_after_success init) =
     JStr ''Failed to generate wallpaper. Please try again.'' \<and>
   is_set (generatedImage (run None failure_after_success init)) \<and>
   is_set (error (run None failure_after_success init))"
  by (simp add: failure_after_success_def ok_body_def init_def gw_defs status_def is_set_def
      submit_disabled_def trim_def is_ws_def code_units_def)

text \<open>
  Neither cell need be set after a success either: line 54 stores whatever the response
  has as \<open>image_url\<close>, and that is \<open>undefined\<close> when the response has none.
\<close>

lemma neither_cell_set_after_success:
  "signals_success (Fulfilled bare_body) \<and>
   generatedImage (run None success_without_image init) = JUndefined \<and>
   error (run None success_without_image init) = JNull \<and>
   \<not> isGenerating (run None success_without_image init) \<and>
   \<not> is_set (generatedImage (run None success_without_image init)) \<and>
   \<not> is_set (error (run None success_without_image init))"
  by (simp add: success_without_image_def bare_body_def init_def gw_defs signals_success_def
      is_set_def submit_disabled_def trim_def is_ws_def code_units_def)

text \<open>
  Claim C1, as the component has it. Take a submission from the enabled button, and how
  its post settles. When the prompt is not blank and the response signals success, the
  run ends with no error message set and with the response's \<open>image_url\<close> as the image
  reference, so the status is Succeeded when that is a value. In every other case (a blank
  prompt, a response that does not signal success, a rejected post, a response without
  data) the run ends in Failed with an error message set, to a truthy value that the
  form displays, and with the image reference that was there before. So an error message
  is set exactly after a failure, never next to the image of the same submission, while
  the image of an earlier one stays.
\<close>

theorem terminal_cells:
  assumes "\<not> isGenerating s"
  shows "(trim (prompt s) \<noteq> [] \<and> signals_success out \<longrightarrow>
      \<not> is_set (error (generateWallpaper env out s)) \<and>
      (\<forall>d. out = Fulfilled d \<longrightarrow>
         get_prop d ''image_url'' = Inr (generatedImage (generateWallpaper env out s))) \<and>
      status (generateWallpaper env out s) =
        (if is_set (generatedImage (generateWallpaper env out s)) then Succeeded else Idle)) \<and>
    (trim (prompt s) = [] \<or> \<not> signals_success out \<longrightarrow>
      status (generateWallpaper env out s) = Failed \<and>
      is_set (error (generateWallpaper env out s)) \<and>
      truthy (error (generateWallpaper env out s)) \<and>
      generatedImage (generateWallpaper env out s) = generatedImage s)"
proof (cases "trim (prompt s) = []")
  case True
  with assms show ?thesis
    by (simp add: generateWallpaper_def gw_start_def status_def is_set_def)
next
  case False
  show ?thesis
  proof (cases out)
    case (Rejected e)
    with False show ?thesis
      by (simp add: gw_defs status_def is_set_def signals_success_def)
  next
    case (Fulfilled d)
    show ?thesis
    proof (cases "get_prop d ''success''")
      case (Inl t)
      then have "get_prop d ''image_url'' = Inl t \<and> get_prop d ''error'' = Inl t"
        by (cases d) simp_all
      with False Fulfilled Inl show ?thesis
        by (simp add: gw_defs status_def is_set_def signals_success_def)
    next
      case (Inr ok)
      then obtain u m where "get_prop d ''image_url'' = Inr u" and "get_prop d ''error'' = Inr m"
        by (cases d) simp_all
      with False Fulfilled Inr show ?thesis
        by (cases "truthy ok"; cases "truthy m")
           (auto simp: gw_defs status_def is_set_def signals_success_def)
    qed
  qed
qed

theorem terminal_cells_witness:
  "\<not> isGenerating shown \<and> trim (prompt shown) \<noteq> [] \<and>
   signals_success (Fulfilled ok_body) \<and>
   \<not> is_set (error (generateWallpaper None (Fulfilled ok_body) shown)) \<and>
   status (generateWallpaper None (Fulfilled ok_body) shown) = Succeeded \<and>
   \<not> signals_success (Fulfilled bad_body) \<and>
   status (generateWallpaper None (Fulfilled bad_body) shown) = Failed \<and>
   truthy (error (generateWallpaper None (Fulfilled bad_body) shown)) \<and>
   generatedImage (generateWallpaper None (Fulfilled bad_body) shown) = JStr ''https://x/y.jpg''"
proof -
  have h: "\<not> isGenerating shown"
    by (simp add: shown_def init_def)
  have t: "trim (prompt shown) \<noteq> []"
    by (simp add: shown_def init_def trim_def is_ws_def code_units_def)
  have ok: "signals_success (Fulfilled ok_body)"
    by (simp add: signals_success_def ok_body_def)
  have bad: "\<not> signals_success (Fulfilled bad_body)"
    by (simp add: signals_success_def bad_body_def)
  have img: "generatedImage shown = JStr ''https://x/y.jpg''"
    by (simp add: shown_def init_def)
  have url: "get_prop ok_body ''image_url'' = Inr (JStr ''https://x/y.jpg'')"
    by (simp add: ok_body_def)
  have set: "is_set (JStr ''https://x/y.jpg'')"
    by (simp add: is_set_def)
  show ?thesis
    using h t ok bad img url set
      terminal_cells [OF h, of "Fulfilled ok_body" None]
      terminal_cells [OF h, of "Fulfilled bad_body" None]
    by simp
qed

section \<open>Validation\<close>

text \<open>
  Claim C2: when the prompt is empty after trimming (by \<open>trim_Nil_iff\<close>: it is empty or
  holds nothing but the white space and line terminators that \<open>trim\<close> removes), a
  submission from the enabled button issues no post, stores the fixed message
  \<open>Please enter a prompt\<close> and leaves the status Failed.
\<close>

theorem blank_prompt_no_request:
  "trim (prompt s) = [] \<Longrightarrow> \<not> isGenerating s \<Longrightarrow>
   posts (generateWallpaper env out s) = posts s \<and>
   pending (generateWallpaper env out s) = pending s \<and>
   error (generateWallpaper env out s) = JStr ''Please enter a prompt'' \<and>
   status (generateWallpaper env out s) = Failed"
  by (simp add: generateWallpaper_def gw_start_def status_def is_set_def)

theorem blank_prompt_no_request_witness:
  "trim (prompt blank) = [] \<and>
   posts (generateWallpaper None (Fulfilled ok_body) blank) = [] \<and>
   pending (generateWallpaper None (Fulfilled ok_body) blank) = [] \<and>
   error (generateWallpaper None (Fulfilled ok_body) blank) = JStr ''Please enter a prompt'' \<and>
   status (generateWallpaper None (Fulfilled ok_body) blank) = Failed"
proof -
  have h1: "trim (prompt blank) = []"
    by (simp add: blank_def init_def trim_def is_ws_def)
  have h2: "\<not> isGenerating blank"
    by (simp add: blank_def init_def)
  have "posts blank = [] \<and> pending blank = []"
    by (simp add: blank_def init_def)
  then show ?thesis
    using h1 blank_prompt_no_request [OF h1 h2, of None "Fulfilled ok_body"] by simp
qed

section \<open>One request in flight\<close>

text \<open>
  Claim C3: in every reachable state at most one post is pending. While the status is
  Generating the two submitting buttons are disabled, a click on either leaves the whole
  state as it is (nothing is queued, the pending post stays), and exactly one post is
  pending.
\<close>

theorem single_request_in_flight:
  "length (pending (run env es init)) \<le> 1 \<and>
   (status (run env es init) = Generating \<longrightarrow>
      submit_disabled (run env es init) \<and>
      step env ClickGenerate (run env es init) = run env es init \<and>
      step env ClickRegenerate (run env es init) = run env es init \<and>
      length (pending (run env es init)) = 1)"
  using inv_reachable [of env es]
  by (auto simp: inv_def status_def submit_disabled_def split: if_splits)

theorem single_request_in_flight_witness:
  "status (run None [SetPrompt (code_units ''neon city''), ClickGenerate, ClickGenerate] init)
     = Generating \<and>
   submit_disabled
     (run None [SetPrompt (code_units ''neon city''), ClickGenerate, ClickGenerate] init) \<and>
   length (pending
     (run None [SetPrompt (code_units ''neon city''), ClickGenerate, ClickGenerate] init)) = 1"
proof -
  have h: "status (run None [SetPrompt (code_units ''neon city''), ClickGenerate, ClickGenerate] init)
      = Generating"
    by (simp add: init_def gw_defs status_def submit_disabled_def trim_def is_ws_def
        code_units_def)
  show ?thesis
    using h single_request_in_flight
      [of None "[SetPrompt (code_units ''neon city''), ClickGenerate, ClickGenerate]"]
    by simp
qed

section \<open>Responses\<close>

text \<open>
  Claim C4: when the response's \<open>success\<close> is false (or any falsy value) and its \<open>error\<close>
  is \<open>m\<close>, the submission ends in Failed and the stored message is \<open>m\<close> when \<open>m\<close> is
  present, which the \<open>||\<close> of line 56 tests by truthiness, and the fixed
  \<open>Failed to generate wallpaper\<close> otherwise.
\<close>

theorem server_failure_message:
  assumes "trim (prompt s) \<noteq> []"
    and "get_prop d ''success'' = Inr ok" and "\<not> truthy ok"
    and "get_prop d ''error'' = Inr m"
  shows "status (generateWallpaper env (Fulfilled d) s) = Failed \<and>
    error (generateWallpaper env (Fulfilled d) s) =
      (if truthy m then m else JStr ''Failed to generate wallpaper'')"
proof -
  let ?s' = "generateWallpaper env (Fulfilled d) s"
  have err: "error ?s' = js_or m (JStr ''Failed to generate wallpaper'')"
    using assms
    by (simp add: generateWallpaper_def gw_start_def gw_resume_def try_block_def
        finally_block_def)
  have "truthy (error ?s')"
    unfolding err by (simp add: js_or_def)
  then have "is_set (error ?s')"
    by (auto simp: is_set_def)
  moreover have "\<not> isGenerating ?s'"
    using assms
    by (simp add: generateWallpaper_def gw_start_def gw_resume_def try_block_def
        finally_block_def)
  ultimately have "status ?s' = Failed"
    by (simp add: status_def)
  with err show ?thesis
    by (simp add: js_or_def)
qed

theorem server_failure_message_witness:
  "trim (prompt typed) \<noteq> [] \<and>
   get_prop bad_body ''success'' = Inr (JBool False) \<and>
   get_prop bad_body ''error'' = Inr (JStr ''bad prompt'') \<and>
   status (generateWallpaper None (Fulfilled bad_body) typed) = Failed \<and>
   error (generateWallpaper None (Fulfilled bad_body) typed) = JStr ''bad prompt''"
proof -
  have h1: "trim (prompt typed) \<noteq> []"
    by (simp add: typed_def init_def trim_def is_ws_def code_units_def)
  have h2: "get_prop bad_body ''success'' = Inr (JBool False)"
    by (simp add: bad_body_def)
  have h3: "\<not> truthy (JBool False)"
    by simp
  have h4: "get_prop bad_body ''error'' = Inr (JStr ''bad prompt'')"
    by (simp add: bad_body_def)
  show ?thesis
    using h1 h2 h4 server_failure_message [OF h1 h2 h3 h4, of None] by simp
qed

text \<open>
  Claim C5: when the post is rejected (network error, status outside 2xx, timeout) the
  submission ends in Failed, the stored message is the fixed
  \<open>Failed to generate wallpaper. Please try again.\<close> whatever the rejection was, the
  rejection is appended to the console, and nothing else of the state depends on it.
\<close>

theorem transport_failure_message:
  "trim (prompt s) \<noteq> [] \<Longrightarrow>
   status (generateWallpaper env (Rejected e) s) = Failed \<and>
   error (generateWallpaper env (Rejected e) s) =
     JStr ''Failed to generate wallpaper. Please try again.'' \<and>
   console (generateWallpaper env (Rejected e) s) =
     console s @ [(''Error generating wallpaper:'', AxiosError e)] \<and>
   (generateWallpaper env (Rejected e) s)\<lparr>console := c\<rparr> =
     (generateWallpaper env (Rejected e') s)\<lparr>console := c\<rparr>"
  by (simp add: gw_defs status_def is_set_def)

theorem transport_failure_message_witness:
  "trim (prompt typed) \<noteq> [] \<and>
   status (generateWallpaper None (Rejected ''timeout of 0ms exceeded'') typed) = Failed \<and>
   error (generateWallpaper None (Rejected ''timeout of 0ms exceeded'') typed) =
     JStr ''Failed to generate wallpaper. Please try again.'' \<and>
   console (generateWallpaper None (Rejected ''timeout of 0ms exceeded'') typed) =
     [(''Error generating wallpaper:'', AxiosError ''timeout of 0ms exceeded'')]"
proof -
  have h: "trim (prompt typed) \<noteq> []"
    by (simp add: typed_def init_def trim_def is_ws_def code_units_def)
  have "console typed = []"
    by (simp add: typed_def init_def)
  then show ?thesis
    using h transport_failure_message [OF h, of None "''timeout of 0ms exceeded''"] by simp
qed

text \<open>
  Claim C6: when the response's \<open>success\<close> is true (or any truthy value) and its
  \<open>image_url\<close> is the string \<open>u\<close>, the submission ends in Succeeded and the stored image
  reference is \<open>u\<close>.
\<close>

theorem success_stores_image:
  "trim (prompt s) \<noteq> [] \<Longrightarrow> get_prop d ''success'' = Inr ok \<Longrightarrow> truthy ok \<Longrightarrow>
   get_prop d ''image_url'' = Inr (JStr u) \<Longrightarrow>
   status (generateWallpaper env (Fulfilled d) s) = Succeeded \<and>
   generatedImage (generateWallpaper env (Fulfilled d) s) = JStr u"
  by (simp add: gw_defs status_def is_set_def)

theorem success_stores_image_witness:
  "trim (prompt typed) \<noteq> [] \<and>
   get_prop ok_body ''success'' = Inr (JBool True) \<and>
   get_prop ok_body ''image_url'' = Inr (JStr ''https://x/y.jpg'') \<and>
   status (generateWallpaper None (Fulfilled ok_body) typed) = Succeeded \<and>
   generatedImage (generateWallpaper None (Fulfilled ok_body) typed) = JStr ''https://x/y.jpg''"
proof -
  have h1: "trim (prompt typed) \<noteq> []"
    by (simp add: typed_def init_def trim_def is_ws_def code_units_def)
  have h2: "get_prop ok_body ''success'' = Inr (JBool True)"
    by (simp add: ok_body_def)
  have h3: "truthy (JBool True)"
    by simp
  have h4: "get_prop ok_body ''image_url'' = Inr (JStr ''https://x/y.jpg'')"
    by (simp add: ok_body_def)
  show ?thesis
    using h1 h2 h4 success_stores_image [OF h1 h2 h3 h4, of None] by simp
qed

text \<open>
  Claim C10: a submission that ends in Failed leaves the stored image reference as it
  was before the submission, next to the error message it stores.
\<close>

theorem failure_keeps_image:
  assumes "status (generateWallpaper env out s) = Failed"
  shows "generatedImage (generateWallpaper env out s) = generatedImage s \<and>
    is_set (error (generateWallpaper env out s))"
proof -
  from assms have e: "is_set (error (generateWallpaper env out s))"
    by (simp add: status_def split: if_splits)
  have "generatedImage (generateWallpaper env out s) = generatedImage s"
  proof (cases "trim (prompt s) = []")
    case True
    then show ?thesis
      by (simp add: generateWallpaper_def gw_start_def)
  next
    case False
    show ?thesis
    proof (cases out)
      case (Rejected x)
      with False show ?thesis
        by (simp add: gw_defs)
    next
      case (Fulfilled d)
      with False e show ?thesis
        by (auto simp: gw_defs is_set_def Let_def split: sum.splits if_splits)
    qed
  qed
  with e show ?thesis
    by simp
qed

theorem failure_keeps_image_witness:
  "status (generateWallpaper None (Fulfilled bad_body) shown) = Failed \<and>
   generatedImage (generateWallpaper None (Fulfilled bad_body) shown) = JStr ''https://x/y.jpg'' \<and>
   is_set (error (generateWallpaper None (Fulfilled bad_body) shown))"
proof -
  have h: "status (generateWallpaper None (Fulfilled bad_body) shown) = Failed"
    by (simp add: shown_def bad_body_def init_def gw_defs status_def is_set_def trim_def
        is_ws_def code_units_def)
  have "generatedImage shown = JStr ''https://x/y.jpg''"
    by (simp add: shown_def init_def)
  then show ?thesis
    using h failure_keeps_image [OF h] by simp
qed

section \<open>The request\<close>

text \<open>
  Claim C8: a submission with a prompt that is not blank issues exactly one post, to the
  base address followed by \<open>/api/generate-wallpaper\<close>, whose body holds the trimmed
  prompt, the style and the aspect ratio \<open>9:16\<close>. The base address is the environment's
  value, and \<open>http://localhost:8000\<close> when the environment has none.
\<close>

theorem post_request_shape:
  "trim (prompt s) \<noteq> [] \<Longrightarrow>
   posts (generateWallpaper env out s) = posts s @
     [\<lparr>http_method = ''POST'', url = API_BASE env @ ''/api/generate-wallpaper'',
       body = \<lparr>body_prompt = trim (prompt s), body_style = style s,
                body_aspect_ratio = ''9:16''\<rparr>\<rparr>] \<and>
   API_BASE None = ''http://localhost:8000'' \<and>
   API_BASE (Some (b # bs)) = b # bs"
  by (cases out) (simp_all add: gw_defs Let_def split: sum.splits)

theorem post_request_shape_witness:
  "trim (prompt typed) = code_units ''neon city'' \<and>
   posts (generateWallpaper (Some ''https://api.example'') (Fulfilled ok_body) typed) =
     [\<lparr>http_method = ''POST'', url = ''https://api.example/api/generate-wallpaper'',
       body = \<lparr>body_prompt = code_units ''neon city'', body_style = ''neon'',
                body_aspect_ratio = ''9:16''\<rparr>\<rparr>]"
proof -
  have t: "trim (prompt typed) = code_units ''neon city''"
    by (simp add: typed_def init_def trim_def is_ws_def code_units_def)
  have h: "trim (prompt typed) \<noteq> []"
    by (simp add: t code_units_def)
  have p: "posts typed = [] \<and> style typed = ''neon''"
    by (simp add: typed_def init_def)
  have b: "API_BASE (Some ''https://api.example'') = ''https://api.example''"
    by (simp add: API_BASE_def)
  show ?thesis
    using t p b post_request_shape [OF h, of "Some ''https://api.example''" "Fulfilled ok_body"]
    by simp
qed

section \<open>Download\<close>

text \<open>
  Claim C9: without an image reference (a falsy \<open>generatedImage\<close>, as line 67 tests it)
  \<open>downloadWallpaper\<close> builds nothing and the state stays as it is; with one it builds and
  clicks a link to that image reference whose file name is \<open>wallpaper-\<close>, the time in
  milliseconds and \<open>.jpg\<close>.
\<close>

theorem download_link:
  "(\<not> truthy (generatedImage s) \<longrightarrow>
      downloadWallpaper now s = None \<and> click_download now s = s) \<and>
   (truthy (generatedImage s) \<longrightarrow>
      downloadWallpaper now s =
        Some \<lparr>href = generatedImage s,
              download = ''wallpaper-'' @ int_to_string now @ ''.jpg'',
              target = ''_blank''\<rparr> \<and>
      saves (click_download now s) = saves s @
        [\<lparr>href = generatedImage s,
          download = ''wallpaper-'' @ int_to_string now @ ''.jpg'',
          target = ''_blank''\<rparr>])"
  by (simp add: downloadWallpaper_def click_download_def)

theorem download_link_witness:
  "downloadWallpaper 1700000000123 init = None \<and>
   click_download 1700000000123 init = init \<and>
   downloadWallpaper 1700000000123 shown =
     Some \<lparr>href = JStr ''https://x/y.jpg'', download = ''wallpaper-1700000000123.jpg'',
           target = ''_blank''\<rparr>"
proof -
  have a: "\<not> truthy (generatedImage init)"
    by (simp add: init_def)
  have b: "truthy (generatedImage shown) \<and> generatedImage shown = JStr ''https://x/y.jpg''"
    by (simp add: shown_def init_def)
  have n: "int_to_string 1700000000123 = ''1700000000123''"
    by (simp add: int_to_string_def nat_to_string.simps)
  show ?thesis
    using a b n download_link [of init 1700000000123] download_link [of shown 1700000000123]
    by simp
qed

section \<open>The preview\<close>

text \<open>
  Claim C7: \<open>PhonePreview\<close> is a function of the image reference and the loading flag
  alone. While loading it shows the spinner, whatever the image reference; otherwise it
  shows the image, cropped to cover, when there is an image reference (a truthy one, as
  line 274 tests it) and the placeholder glyph with its caption when there is none. Each
  input gives exactly one of the three.
\<close>

theorem PhonePreview_cases:
  "PhonePreview u True = Spinner ''Generating...'' \<and>
   (truthy u \<longrightarrow>
      PhonePreview u False = Img u ''Generated wallpaper'' ''w-full h-full object-cover'') \<and>
   (\<not> truthy u \<longrightarrow>
      PhonePreview u False = PlaceholderGlyph ''Your wallpaper will appear here'') \<and>
   (is_Spinner (PhonePreview u l) \<longleftrightarrow> l) \<and>
   (is_Img (PhonePreview u l) \<longleftrightarrow> \<not> l \<and> truthy u) \<and>
   (is_Placeholder (PhonePreview u l) \<longleftrightarrow> \<not> l \<and> \<not> truthy u)"
  by (simp add: PhonePreview_def)

theorem PhonePreview_cases_witness:
  "PhonePreview (JStr ''https://x/y.jpg'') True = Spinner ''Generating...'' \<and>
   PhonePreview (JStr ''https://x/y.jpg'') False =
     Img (JStr ''https://x/y.jpg'') ''Generated wallpaper'' ''w-full h-full object-cover'' \<and>
   PhonePreview JNull False = PlaceholderGlyph ''Your wallpaper will appear here''"
  using PhonePreview_cases [of "JStr ''https://x/y.jpg''" True]
    PhonePreview_cases [of JNull False]
  by simp

end
